theory Spec2Isabelle
  imports Main
begin

section \<open>The deployment controller of k8s-tui (package controller)\<close>

text \<open>
  The controller watches Deployments, funnels their keys through a rate-limited work queue
  and records the latest snapshot of every Deployment in the map \<open>CurrentDeployments\<close>.
  The functions \<open>Run\<close>, \<open>RunWorker\<close>, \<open>processNextItem\<close>, \<open>syncDeployment\<close>, \<open>handleErr\<close>,
  \<open>deleteDeplotment\<close>, \<open>castObjToDeployment\<close> and the event handlers registered in
  \<open>NewController\<close> are
  translated from the Go source. The work queue, the key functions and the metadata
  accessor belong to the client-go and apimachinery libraries, whose source is not part of
  the repository; they are modelled from the contracts of the specification and marked so.
\<close>

subsection \<open>Data\<close>

text \<open>A Go \<open>error\<close> value is represented by its message; \<open>nil\<close> is \<open>None\<close> of \<open>error option\<close>.\<close>

type_synonym error = string

text \<open>The metadata every API object carries (metav1.ObjectMeta), as far as the code reads it.\<close>

record ObjectMeta =
  Namespace :: string
  Name :: string
  UID :: string

text \<open>
  appsv1.Deployment: the embedded ObjectMeta and the rest of the resource state, which the
  controller stores but never inspects.
\<close>

record Deployment =
  Meta :: ObjectMeta
  Payload :: string

text \<open>
  A value of Go's \<open>interface{}\<close> as the store and the event handlers see it:
  a \<open>*appsv1.Deployment\<close> (\<open>None\<close> is the nil pointer of that type), an API object of
  another type, the tombstone \<open>cache.DeletedFinalStateUnknown\<close> handed to delete handlers,
  or a value without metadata (the nil interface included).
\<close>

datatype obj =
    DeploymentPtr "Deployment option"
  | OtherObject ObjectMeta
  | DeletedFinalStateUnknown string
  | NoObject

text \<open>A Go call either returns or panics.\<close>

datatype 'a outcome = Return 'a | Panic string

subsection \<open>The work queue\<close>

text \<open>The operations invoked on the queue, in order, kept as a history.\<close>

datatype call =
    Call_Add string
  | Call_Get
  | Call_Done string
  | Call_AddRateLimited string
  | Call_Forget string
  | Call_ShutDown

text \<open>
  Modelled from the spec: workqueue.TypedRateLimitingInterface[string] of client-go is not
  part of the repository. Section 4.2 and the WorkQueueEntry of section 3 give its state:
  the pending keys, the keys in flight (between Get and Done), the keys marked dirty while
  in flight, the retry count of every key, the keys waiting for their back-off delay, and
  the shutdown flag. The length of a delay is real time and is not represented.
\<close>

record workqueue =
  pending :: "string list"
  processing :: "string list"
  dirty :: "string list"
  retries :: "string \<Rightarrow> nat"
  delayed :: "string list"
  shuttingDown :: bool
  calls :: "call list"

text \<open>
  Modelled from the spec: Add "inserts key if not already pending; if the key is currently
  in-flight, marks it dirty instead of inserting"; after ShutDown, Add is a no-op.
\<close>

definition Add :: "string \<Rightarrow> workqueue \<Rightarrow> workqueue" where
  "Add key q =
     (let q' = q\<lparr>calls := calls q @ [Call_Add key]\<rparr> in
      if shuttingDown q then q'
      else if key \<in> set (processing q) then
        (if key \<in> set (dirty q) then q' else q'\<lparr>dirty := dirty q @ [key]\<rparr>)
      else if key \<in> set (pending q) then q'
      else q'\<lparr>pending := pending q @ [key]\<rparr>)"

text \<open>
  Modelled from the spec: Get "blocks until a key is available or the queue is shut down;
  marks the returned key in-flight". \<open>None\<close> is the blocked call; the second component of
  the returned pair is the shutdown signal.
\<close>

definition Get :: "workqueue \<Rightarrow> ((string \<times> bool) \<times> workqueue) option" where
  "Get q =
     (let q' = q\<lparr>calls := calls q @ [Call_Get]\<rparr> in
      case pending q of
        [] \<Rightarrow> if shuttingDown q then Some (([], True), q') else None
      | key # rest \<Rightarrow>
          Some ((key, False), q'\<lparr>pending := rest, processing := processing q @ [key]\<rparr>))"

text \<open>
  Modelled from the spec: Done "marks a key no longer in-flight; if it was marked dirty
  while in-flight, immediately re-adds it".
\<close>

definition Done :: "string \<Rightarrow> workqueue \<Rightarrow> workqueue" where
  "Done key q =
     (let q' = q\<lparr>calls := calls q @ [Call_Done key],
                 processing := removeAll key (processing q)\<rparr> in
      if key \<in> set (dirty q) then
        q'\<lparr>dirty := removeAll key (dirty q),
           pending := (if key \<in> set (pending q) then pending q else pending q @ [key])\<rparr>
      else q')"

text \<open>
  Modelled from the spec: AddRateLimited "re-adds a key after a delay computed by an
  exponential-backoff function of its current retry count, and increments the retry count".
\<close>

definition AddRateLimited :: "string \<Rightarrow> workqueue \<Rightarrow> workqueue" where
  "AddRateLimited key q =
     q\<lparr>calls := calls q @ [Call_AddRateLimited key],
       delayed := delayed q @ [key],
       retries := (retries q)(key := Suc (retries q key))\<rparr>"

text \<open>
  Modelled from the spec: Forget "resets a key's retry count to zero without affecting its
  queue membership".
\<close>

definition Forget :: "string \<Rightarrow> workqueue \<Rightarrow> workqueue" where
  "Forget key q =
     q\<lparr>calls := calls q @ [Call_Forget key], retries := (retries q)(key := 0)\<rparr>"

text \<open>Modelled from the spec: NumRequeues reads the retry count of a key.\<close>

definition NumRequeues :: "string \<Rightarrow> workqueue \<Rightarrow> nat" where
  "NumRequeues key q = retries q key"

text \<open>
  Modelled from the spec: ShutDown is idempotent, makes blocked Get calls return the
  shutdown signal and later Add calls no-ops.
\<close>

definition ShutDown :: "workqueue \<Rightarrow> workqueue" where
  "ShutDown q = q\<lparr>calls := calls q @ [Call_ShutDown], shuttingDown := True\<rparr>"

subsection \<open>Keys and metadata access\<close>

text \<open>
  Modelled from the spec: meta.Accessor of apimachinery is not part of the repository. It
  gives access to the metadata of an API object and fails on a value that has none. For a
  nil \<open>*appsv1.Deployment\<close> it returns that pointer, whose getters panic (\<open>Inr None\<close>).
\<close>

definition errNotObject :: error where
  "errNotObject = ''object does not implement the Object interfaces''"

fun metaAccessor :: "obj \<Rightarrow> error + ObjectMeta option" where
  "metaAccessor (DeploymentPtr p) = Inr (map_option Meta p)"
| "metaAccessor (OtherObject m) = Inr (Some m)"
| "metaAccessor (DeletedFinalStateUnknown k) = Inl errNotObject"
| "metaAccessor NoObject = Inl errNotObject"

definition nilDereference :: string where
  "nilDereference = ''runtime error: invalid memory address or nil pointer dereference''"

text \<open>
  Modelled from the spec: cache.MetaNamespaceKeyFunc of client-go is not part of the
  repository. Section 3 defines the ResourceKey as \<open><namespace>/<name>\<close>, "derived
  deterministically from a resource's namespace and name fields"; for an object without a
  namespace the library returns the name alone. The Go pair (key, err) is returned as it is.
\<close>

definition MetaNamespaceKeyFunc :: "obj \<Rightarrow> (string \<times> error option) outcome" where
  "MetaNamespaceKeyFunc obj =
     (case metaAccessor obj of
        Inl err \<Rightarrow> Return ([], Some (''object has no meta: '' @ err))
      | Inr None \<Rightarrow> Panic nilDereference
      | Inr (Some m) \<Rightarrow>
          Return (if Namespace m \<noteq> [] then Namespace m @ ''/'' @ Name m else Name m, None))"

text \<open>
  Modelled from the spec: cache.DeletionHandlingMetaNamespaceKeyFunc takes the key "from
  last-known metadata if the resource was deleted": the key recorded in a tombstone, and
  the key of the object otherwise.
\<close>

definition DeletionHandlingMetaNamespaceKeyFunc :: "obj \<Rightarrow> (string \<times> error option) outcome" where
  "DeletionHandlingMetaNamespaceKeyFunc obj =
     (case obj of
        DeletedFinalStateUnknown k \<Rightarrow> Return (k, None)
      | _ \<Rightarrow> MetaNamespaceKeyFunc obj)"

subsection \<open>The controller\<close>

text \<open>
  The Controller struct: \<open>Indexer\<close> is the store, read through \<open>GetByKey\<close>, which returns
  the Go triple (item, exists, err); \<open>reported\<close> collects the errors handed to
  \<open>runtime.HandleError\<close>. The informer, the client and the logger are not read by the
  functions below.
\<close>

record controller =
  Indexer :: "string \<Rightarrow> obj \<times> bool \<times> error option"
  queue :: workqueue
  CurrentDeployments :: "string \<rightharpoonup> Deployment"
  reported :: "error list"

text \<open>The three event handlers of \<open>NewController\<close>, acting on the queue.\<close>

definition AddFunc :: "obj \<Rightarrow> workqueue \<Rightarrow> workqueue outcome" where
  "AddFunc obj q =
     (case MetaNamespaceKeyFunc obj of
        Panic m \<Rightarrow> Panic m
      | Return (key, err) \<Rightarrow> if err = None then Return (Add key q) else Return q)"

definition UpdateFunc :: "obj \<Rightarrow> obj \<Rightarrow> workqueue \<Rightarrow> workqueue outcome" where
  "UpdateFunc old new q =
     (case MetaNamespaceKeyFunc new of
        Panic m \<Rightarrow> Panic m
      | Return (key, err) \<Rightarrow> if err = None then Return (Add key q) else Return q)"

definition DeleteFunc :: "obj \<Rightarrow> workqueue \<Rightarrow> workqueue outcome" where
  "DeleteFunc obj q =
     (case DeletionHandlingMetaNamespaceKeyFunc obj of
        Panic m \<Rightarrow> Panic m
      | Return (key, err) \<Rightarrow> if err = None then Return (Add key q) else Return q)"

text \<open>
  \<open>castObjToDeployment\<close> returns the Go pair (pointer, err). The type assertion succeeds
  on every \<open>*appsv1.Deployment\<close>, the nil pointer included. The getters of the accessor
  would panic on a nil pointer; no object that fails the assertion has such an accessor.
\<close>

definition castObjToDeployment :: "obj \<Rightarrow> (Deployment option \<times> error option) outcome" where
  "castObjToDeployment obj =
     (case obj of
        DeploymentPtr s \<Rightarrow> Return (s, None)
      | _ \<Rightarrow>
         (case metaAccessor obj of
            Inl err \<Rightarrow>
              Return (None, Some (''could not cast obj to deployment, failed to create accessor, got err: '' @ err))
          | Inr None \<Rightarrow> Panic nilDereference
          | Inr (Some accessor) \<Rightarrow>
              Return (None, Some (''could not cast obj '' @ Namespace accessor @ ''/'' @ Name accessor
                                  @ '' (uid: '' @ UID accessor @ '') to deployment''))))"

definition deleteDeplotment :: "string \<Rightarrow> controller \<Rightarrow> error option \<times> controller" where
  "deleteDeplotment key c =
     (None, c\<lparr>CurrentDeployments := (CurrentDeployments c)(key := None)\<rparr>)"

text \<open>
  \<open>syncDeployment\<close>: the getters \<open>GetNamespace\<close> and \<open>GetName\<close> dereference the pointer the
  cast returned, so a nil \<open>*appsv1.Deployment\<close> in the store makes the call panic before
  the map is written.
\<close>

definition syncDeployment :: "string \<Rightarrow> controller \<Rightarrow> error option outcome \<times> controller" where
  "syncDeployment key c =
     (case Indexer c key of (obj, exists, err) \<Rightarrow>
        (case err of
           Some e \<Rightarrow> (Return (Some e), c)
         | None \<Rightarrow>
            if \<not> exists then (case deleteDeplotment key c of (r, c') \<Rightarrow> (Return r, c'))
            else
              (case castObjToDeployment obj of
                 Panic m \<Rightarrow> (Panic m, c)
               | Return (changedDeployment, Some e) \<Rightarrow> (Return (Some e), c)
               | Return (None, None) \<Rightarrow> (Panic nilDereference, c)
               | Return (Some d, None) \<Rightarrow>
                   (Return None,
                    c\<lparr>CurrentDeployments :=
                        (CurrentDeployments c)(Namespace (Meta d) @ ''/'' @ Name (Meta d) \<mapsto> d)\<rparr>))))"

definition handleErr :: "error option \<Rightarrow> string \<Rightarrow> controller \<Rightarrow> controller" where
  "handleErr err key c =
     (case err of
        None \<Rightarrow> c\<lparr>queue := Forget key (queue c)\<rparr>
      | Some e \<Rightarrow>
          if NumRequeues key (queue c) < 5 then c\<lparr>queue := AddRateLimited key (queue c)\<rparr>
          else c\<lparr>queue := Forget key (queue c), reported := reported c @ [e]\<rparr>)"

text \<open>
  \<open>processNextItem\<close>: \<open>None\<close> when \<open>Get\<close> blocks. The deferred \<open>Done\<close> runs when the
  function returns after a successful \<open>Get\<close> and when \<open>syncDeployment\<close> panics; a panic
  skips \<open>handleErr\<close> and propagates to the caller.
\<close>

definition processNextItem :: "controller \<Rightarrow> (bool outcome \<times> controller) option" where
  "processNextItem c =
     (case Get (queue c) of
        None \<Rightarrow> None
      | Some ((key, quit), q) \<Rightarrow>
          if quit then Some (Return False, c\<lparr>queue := q\<rparr>)
          else
            (case syncDeployment key (c\<lparr>queue := q\<rparr>) of
               (Panic m, c') \<Rightarrow> Some (Panic m, c'\<lparr>queue := Done key (queue c')\<rparr>)
             | (Return err, c') \<Rightarrow>
                 (let c'' = handleErr err key c'
                  in Some (Return True, c''\<lparr>queue := Done key (queue c'')\<rparr>))))"

text \<open>
  \<open>RunWorker\<close>: the loop \<open>for c.processNextItem() {}\<close>. It stops when a step returns
  false, is left by a panic of a step, and waits when \<open>Get\<close> blocks. With no other
  goroutine adding keys in between, every step that returns true has taken a key from the
  pending keys, which is why the recursion ends.
\<close>

datatype exit = Stopped | Blocked | Crashed string

function RunWorker :: "controller \<Rightarrow> exit \<times> controller" where
  "RunWorker c =
     (case processNextItem c of
        None \<Rightarrow> (Blocked, c)
      | Some (Panic m, c') \<Rightarrow> (Crashed m, c')
      | Some (Return continue, c') \<Rightarrow> if continue then RunWorker c' else (Stopped, c'))"
  by pat_completeness auto

termination RunWorker
proof (relation "measure (\<lambda>c. length (pending (queue c)) + length (dirty (queue c)))")
  show "wf (measure (\<lambda>c. length (pending (queue c)) + length (dirty (queue c))))"
    by simp
next
  fix c x2 x c' continue
  assume "processNextItem c = Some x2" "(x, c') = x2" "x = Return continue" "continue"
  then have step: "processNextItem c = Some (Return True, c')" by simp
  then obtain key q where g: "Get (queue c) = Some ((key, False), q)"
    by (auto simp: processNextItem_def split: option.splits prod.splits if_splits)
  with step obtain err c1 where
    s: "syncDeployment key (c\<lparr>queue := q\<rparr>) = (Return err, c1)" and
    c': "c' = (handleErr err key c1)\<lparr>queue := Done key (queue (handleErr err key c1))\<rparr>"
    by (auto simp: processNextItem_def Let_def split: prod.splits outcome.splits)
  from s have q1: "queue c1 = q"
    by (auto simp: syncDeployment_def deleteDeplotment_def
             split: prod.splits option.splits if_splits outcome.splits)
  have h: "pending (queue (handleErr err key c1)) = pending q \<and>
           dirty (queue (handleErr err key c1)) = dirty q"
    using q1 by (simp add: handleErr_def Forget_def AddRateLimited_def split: option.splits)
  have d: "length (pending (Done key r)) + length (dirty (Done key r))
             \<le> length (pending r) + length (dirty r)" for r
  proof (cases "key \<in> set (dirty r)")
    case True
    then have "length (removeAll key (dirty r)) < length (dirty r)"
      by (simp add: length_removeAll_less)
    with True show ?thesis by (simp add: Done_def Let_def)
  next
    case False
    then show ?thesis by (simp add: Done_def Let_def)
  qed
  have "length (pending (queue c')) + length (dirty (queue c'))
          \<le> length (pending q) + length (dirty q)"
    unfolding c' using d [of "queue (handleErr err key c1)"] h by simp
  also have "\<dots> < length (pending (queue c)) + length (dirty (queue c))"
    using g by (auto simp: Get_def Let_def split: list.splits if_splits)
  finally show "(c', c) \<in> measure (\<lambda>c. length (pending (queue c)) + length (dirty (queue c)))"
    by simp
qed

declare RunWorker.simps [simp del]

text \<open>
  \<open>Run\<close>. The argument \<open>synced\<close> is the value that
  \<open>cache.WaitForCacheSync(stopCh, c.Informer.HasSynced)\<close> returns; that function belongs
  to client-go and is given the stop channel and the readiness signal, nothing else. The
  informer started by \<open>go c.Informer.Run(stopCh)\<close> works in its own goroutine; the keys
  it has added by the time the wait ends are part of the state \<open>c\<close>.

  When the wait fails, the error is handed to \<open>runtime.HandleError\<close> and \<open>Run\<close> returns,
  which runs the deferred \<open>ShutDown\<close>. Otherwise the worker goroutine is started and
  \<open>Run\<close> waits for the stop channel; the schedule taken here lets the worker loop come
  to rest before the channel is closed, and then the deferred \<open>ShutDown\<close> runs. A panic
  of the worker goroutine ends the program, so nothing of \<open>Run\<close> runs after it.
\<close>

datatype startup = SyncFailed | Started exit

definition Run :: "bool \<Rightarrow> controller \<Rightarrow> startup outcome \<times> controller" where
  "Run synced c =
     (if \<not> synced then
        (Return SyncFailed,
         c\<lparr>reported := reported c @ [''timed out waiting for caches to sync''],
           queue := ShutDown (queue c)\<rparr>)
      else
        (case RunWorker c of
           (Crashed m, c') \<Rightarrow> (Panic m, c')
         | (r, c') \<Rightarrow> (Return (Started r), c'\<lparr>queue := ShutDown (queue c')\<rparr>)))"

text \<open>
  Modelled from the spec: workqueue.NewTypedRateLimitingQueue of client-go returns a queue
  with no key, no retry history and no shutdown.
\<close>

definition newQueue :: workqueue where
  "newQueue = \<lparr>pending = [], processing = [], dirty = [], retries = (\<lambda>key. 0),
               delayed = [], shuttingDown = False, calls = []\<rparr>"

text \<open>
  \<open>NewController\<close>, given the store that \<open>cache.NewIndexerInformer\<close> returned: a new
  queue and an empty map.
\<close>

definition NewController :: "(string \<Rightarrow> obj \<times> bool \<times> error option) \<Rightarrow> controller" where
  "NewController indexer =
     \<lparr>Indexer = indexer, queue = newQueue, CurrentDeployments = Map.empty, reported = []\<rparr>"

subsection \<open>Example states\<close>

text \<open>A Deployment, an object of another type under the same key, and three stores.\<close>

definition exampleDeployment :: Deployment where
  "exampleDeployment =
     \<lparr>Meta = \<lparr>Namespace = ''ns'', Name = ''a'', UID = ''u1''\<rparr>, Payload = ''v2''\<rparr>"

definition staleDeployment :: Deployment where
  "staleDeployment =
     \<lparr>Meta = \<lparr>Namespace = ''ns'', Name = ''a'', UID = ''u1''\<rparr>, Payload = ''v1''\<rparr>"

definition examplePod :: obj where
  "examplePod = OtherObject \<lparr>Namespace = ''ns'', Name = ''a'', UID = ''u7''\<rparr>"

definition emptyStore :: "string \<Rightarrow> obj \<times> bool \<times> error option" where
  "emptyStore key = (NoObject, False, None)"

definition storeWith :: "string \<Rightarrow> obj \<Rightarrow> string \<Rightarrow> obj \<times> bool \<times> error option" where
  "storeWith k obj key = (if key = k then (obj, True, None) else (NoObject, False, None))"

definition failingStore :: "error \<Rightarrow> string \<Rightarrow> obj \<times> bool \<times> error option" where
  "failingStore e key = (NoObject, False, Some e)"

definition enqueued :: "string \<Rightarrow> (string \<Rightarrow> obj \<times> bool \<times> error option) \<Rightarrow> controller" where
  "enqueued key indexer = (NewController indexer)\<lparr>queue := Add key newQueue\<rparr>"

subsection \<open>Notions used to state the properties\<close>

text \<open>The error handler applied to a run of failed attempts at one key, oldest first.\<close>

definition consecutiveFailures :: "error list \<Rightarrow> string \<Rightarrow> controller \<Rightarrow> controller" where
  "consecutiveFailures es key c = fold (\<lambda>e. handleErr (Some e) key) es c"

text \<open>Recognises a call of \<open>Done\<close> in the history of the queue.\<close>

fun isDone :: "call \<Rightarrow> bool" where
  "isDone (Call_Done k) = True"
| "isDone _ = False"

section \<open>Properties\<close>

lemmas example_defs =
  NewController_def newQueue_def emptyStore_def storeWith_def failingStore_def
  exampleDeployment_def staleDeployment_def examplePod_def enqueued_def

lemmas queue_defs =
  Add_def Get_def Done_def AddRateLimited_def Forget_def NumRequeues_def ShutDown_def

subsection \<open>What every step leaves alone\<close>

lemma syncDeployment_queue: "syncDeployment key c = (r, c') \<Longrightarrow> queue c' = queue c"
  by (auto simp: syncDeployment_def deleteDeplotment_def
           split: prod.splits option.splits if_splits outcome.splits)

lemma handleErr_calls:
  "\<exists>x. calls (queue (handleErr err key c)) = calls (queue c) @ [x] \<and> \<not> isDone x"
  by (cases err) (auto simp: handleErr_def Forget_def AddRateLimited_def)

lemma Done_calls: "calls (Done key q) = calls q @ [Call_Done key]"
  by (simp add: Done_def Let_def)

lemma Done_processing: "key \<notin> set (processing (Done key q))"
  by (simp add: Done_def Let_def)

subsection \<open>The retry policy\<close>

lemma failures_below_ceiling:
  "NumRequeues key (queue c) + length es \<le> 5 \<Longrightarrow>
     calls (queue (consecutiveFailures es key c))
        = calls (queue c) @ replicate (length es) (Call_AddRateLimited key) \<and>
     reported (consecutiveFailures es key c) = reported c \<and>
     NumRequeues key (queue (consecutiveFailures es key c)) = NumRequeues key (queue c) + length es"
proof (induction es arbitrary: c)
  case Nil
  then show ?case by (simp add: consecutiveFailures_def)
next
  case (Cons e es)
  let ?c1 = "handleErr (Some e) key c"
  from Cons.prems have lt: "NumRequeues key (queue c) < 5" by simp
  then have c1: "?c1 = c\<lparr>queue := AddRateLimited key (queue c)\<rparr>"
    by (simp add: handleErr_def)
  then have n1: "NumRequeues key (queue ?c1) = Suc (NumRequeues key (queue c))"
    by (simp add: NumRequeues_def AddRateLimited_def)
  with Cons.prems have "NumRequeues key (queue ?c1) + length es \<le> 5" by simp
  from Cons.IH [OF this] c1 n1 show ?case
    by (simp add: consecutiveFailures_def AddRateLimited_def replicate_append_same)
qed

text \<open>
  C1. A reconciliation error for a key is answered by \<open>AddRateLimited\<close> while the requeue
  count of the key is below five, and by \<open>Forget\<close> together with a report to
  \<open>runtime.HandleError\<close> otherwise; either way the error is requeued or reported. A key
  that starts with no requeue history and fails on every attempt is therefore requeued by
  its first five failures, and its sixth failure adds no requeue: it forgets the key,
  reports the error and leaves the requeue count at zero.
\<close>

theorem handleErr_retry_policy:
  "(NumRequeues key (queue c) < 5 \<longrightarrow>
      handleErr (Some e) key c = c\<lparr>queue := AddRateLimited key (queue c)\<rparr>) \<and>
   (\<not> NumRequeues key (queue c) < 5 \<longrightarrow>
      handleErr (Some e) key c = c\<lparr>queue := Forget key (queue c), reported := reported c @ [e]\<rparr>) \<and>
   (last (calls (queue (handleErr (Some e) key c))) = Call_AddRateLimited key \<or>
      reported (handleErr (Some e) key c) = reported c @ [e]) \<and>
   (NumRequeues key (queue c) = 0 \<and> length es = 5 \<longrightarrow>
      calls (queue (consecutiveFailures es key c))
        = calls (queue c) @ replicate 5 (Call_AddRateLimited key) \<and>
      reported (consecutiveFailures es key c) = reported c \<and>
      calls (queue (consecutiveFailures (es @ [e]) key c))
        = calls (queue c) @ replicate 5 (Call_AddRateLimited key) @ [Call_Forget key] \<and>
      reported (consecutiveFailures (es @ [e]) key c) = reported c @ [e] \<and>
      NumRequeues key (queue (consecutiveFailures (es @ [e]) key c)) = 0)"
proof -
  have a: "NumRequeues key (queue c) < 5 \<longrightarrow>
      handleErr (Some e) key c = c\<lparr>queue := AddRateLimited key (queue c)\<rparr>"
    by (simp add: handleErr_def)
  have b: "\<not> NumRequeues key (queue c) < 5 \<longrightarrow>
      handleErr (Some e) key c = c\<lparr>queue := Forget key (queue c), reported := reported c @ [e]\<rparr>"
    by (simp add: handleErr_def)
  have d: "last (calls (queue (handleErr (Some e) key c))) = Call_AddRateLimited key \<or>
      reported (handleErr (Some e) key c) = reported c @ [e]"
    by (simp add: handleErr_def AddRateLimited_def)
  have f: "calls (queue (consecutiveFailures es key c))
        = calls (queue c) @ replicate 5 (Call_AddRateLimited key) \<and>
      reported (consecutiveFailures es key c) = reported c \<and>
      calls (queue (consecutiveFailures (es @ [e]) key c))
        = calls (queue c) @ replicate 5 (Call_AddRateLimited key) @ [Call_Forget key] \<and>
      reported (consecutiveFailures (es @ [e]) key c) = reported c @ [e] \<and>
      NumRequeues key (queue (consecutiveFailures (es @ [e]) key c)) = 0"
    if h: "NumRequeues key (queue c) = 0" "length es = 5"
  proof -
    let ?c5 = "consecutiveFailures es key c"
    from h have "NumRequeues key (queue c) + length es \<le> 5" by simp
    from failures_below_ceiling [OF this] h
    have five: "calls (queue ?c5) = calls (queue c) @ replicate 5 (Call_AddRateLimited key)"
         "reported ?c5 = reported c" "NumRequeues key (queue ?c5) = 5"
      by simp_all
    have six: "consecutiveFailures (es @ [e]) key c = handleErr (Some e) key ?c5"
      by (simp add: consecutiveFailures_def)
    from five(3) have "handleErr (Some e) key ?c5
        = ?c5\<lparr>queue := Forget key (queue ?c5), reported := reported ?c5 @ [e]\<rparr>"
      by (simp add: handleErr_def)
    with five six show ?thesis
      by (simp add: Forget_def NumRequeues_def)
  qed
  from a b d f show ?thesis by blast
qed

text \<open>
  The policy at work: a new controller, the key \<open>ns/a\<close> and six failures in a row give
  five requeues, then one \<open>Forget\<close> and the report of the sixth error.
\<close>

theorem handleErr_retry_policy_witness:
  "NumRequeues ''ns/a'' (queue (NewController emptyStore)) < 5 \<and>
   handleErr (Some ''e1'') ''ns/a'' (NewController emptyStore)
     = (NewController emptyStore)\<lparr>queue := AddRateLimited ''ns/a'' newQueue\<rparr> \<and>
   NumRequeues ''ns/a'' (queue (NewController emptyStore)) = 0 \<and>
   length [''e1'', ''e2'', ''e3'', ''e4'', ''e5''] = 5 \<and>
   calls (queue (consecutiveFailures [''e1'', ''e2'', ''e3'', ''e4'', ''e5'', ''e6''] ''ns/a''
                   (NewController emptyStore)))
     = [Call_AddRateLimited ''ns/a'', Call_AddRateLimited ''ns/a'', Call_AddRateLimited ''ns/a'',
        Call_AddRateLimited ''ns/a'', Call_AddRateLimited ''ns/a'', Call_Forget ''ns/a''] \<and>
   reported (consecutiveFailures [''e1'', ''e2'', ''e3'', ''e4'', ''e5'', ''e6''] ''ns/a''
               (NewController emptyStore)) = [''e6''] \<and>
   \<not> NumRequeues ''ns/a''
        (queue (consecutiveFailures [''e1'', ''e2'', ''e3'', ''e4'', ''e5''] ''ns/a''
                  (NewController emptyStore))) < 5 \<and>
   reported (handleErr (Some ''e6'') ''ns/a''
               (consecutiveFailures [''e1'', ''e2'', ''e3'', ''e4'', ''e5''] ''ns/a''
                  (NewController emptyStore))) = [''e6'']"
proof -
  let ?c0 = "NewController emptyStore"
  let ?es = "[''e1'', ''e2'', ''e3'', ''e4'', ''e5'']"
  let ?c5 = "consecutiveFailures ?es ''ns/a'' ?c0"
  have h0: "NumRequeues ''ns/a'' (queue ?c0) = 0"
    by (simp add: example_defs queue_defs)
  have h5: "\<not> NumRequeues ''ns/a'' (queue ?c5) < 5"
    by (simp add: consecutiveFailures_def handleErr_def example_defs queue_defs)
  have r5: "reported ?c5 = []"
    by (simp add: consecutiveFailures_def handleErr_def example_defs queue_defs)
  have l: "length ?es = 5" by simp
  from handleErr_retry_policy [of "''ns/a''" ?c0 "''e1''" ?es] h0
  have a: "handleErr (Some ''e1'') ''ns/a'' ?c0 = ?c0\<lparr>queue := AddRateLimited ''ns/a'' newQueue\<rparr>"
    by (simp add: NewController_def)
  from handleErr_retry_policy [of "''ns/a''" ?c0 "''e6''" ?es] h0 l
  have b: "calls (queue (consecutiveFailures (?es @ [''e6'']) ''ns/a'' ?c0))
             = calls (queue ?c0) @ replicate 5 (Call_AddRateLimited ''ns/a'') @ [Call_Forget ''ns/a'']"
          "reported (consecutiveFailures (?es @ [''e6'']) ''ns/a'' ?c0) = reported ?c0 @ [''e6'']"
    by blast+
  have rep: "replicate 5 x = [x, x, x, x, x]" for x :: call
    by (simp add: numeral_eq_Suc)
  from handleErr_retry_policy [of "''ns/a''" ?c5 "''e6''" ?es] h5
  have d: "handleErr (Some ''e6'') ''ns/a'' ?c5
             = ?c5\<lparr>queue := Forget ''ns/a'' (queue ?c5), reported := reported ?c5 @ [''e6'']\<rparr>"
    by blast
  have e: "reported (handleErr (Some ''e6'') ''ns/a'' ?c5) = [''e6'']"
    by (simp add: d r5)
  from h0 h5 l a b e show ?thesis
    by (simp add: rep NewController_def newQueue_def)
qed

text \<open>
  C2. A nil error makes the handler call \<open>Forget\<close>. After any number of failures of a key,
  one success leaves its requeue count at zero, so the next failure is decided at count
  zero: it is requeued, and the count afterwards is one.
\<close>

theorem handleErr_success_resets:
  "handleErr None key c = c\<lparr>queue := Forget key (queue c)\<rparr> \<and>
   NumRequeues key (queue (handleErr None key (consecutiveFailures es key c))) = 0 \<and>
   handleErr (Some e) key (handleErr None key (consecutiveFailures es key c))
     = (handleErr None key (consecutiveFailures es key c))
         \<lparr>queue := AddRateLimited key (queue (handleErr None key (consecutiveFailures es key c)))\<rparr> \<and>
   NumRequeues key
     (queue (handleErr (Some e) key (handleErr None key (consecutiveFailures es key c)))) = 1"
proof -
  let ?c = "handleErr None key (consecutiveFailures es key c)"
  have z: "NumRequeues key (queue ?c) = 0"
    by (simp add: handleErr_def Forget_def NumRequeues_def)
  then have r: "handleErr (Some e) key ?c = ?c\<lparr>queue := AddRateLimited key (queue ?c)\<rparr>"
    by (simp add: handleErr_def)
  have "NumRequeues key (queue (?c\<lparr>queue := AddRateLimited key (queue ?c)\<rparr>)) = 1"
    using z by (simp add: NumRequeues_def AddRateLimited_def)
  with z r show ?thesis by (simp add: handleErr_def)
qed

text \<open>Three failures of \<open>ns/a\<close> bring its count to three; a success and a failure bring it to one.\<close>

theorem handleErr_success_resets_witness:
  "NumRequeues ''ns/a''
     (queue (consecutiveFailures [''e1'', ''e2'', ''e3''] ''ns/a'' (NewController emptyStore))) = 3 \<and>
   NumRequeues ''ns/a''
     (queue (handleErr None ''ns/a''
               (consecutiveFailures [''e1'', ''e2'', ''e3''] ''ns/a'' (NewController emptyStore)))) = 0 \<and>
   NumRequeues ''ns/a''
     (queue (handleErr (Some ''e4'') ''ns/a''
               (handleErr None ''ns/a''
                  (consecutiveFailures [''e1'', ''e2'', ''e3''] ''ns/a'' (NewController emptyStore))))) = 1"
proof -
  have "NumRequeues ''ns/a''
     (queue (consecutiveFailures [''e1'', ''e2'', ''e3''] ''ns/a'' (NewController emptyStore))) = 3"
    by (simp add: consecutiveFailures_def handleErr_def example_defs queue_defs)
  with handleErr_success_resets
         [of "''ns/a''" "NewController emptyStore" "[''e1'', ''e2'', ''e3'']" "''e4''"]
  show ?thesis by blast
qed

subsection \<open>The worker step\<close>

text \<open>
  C3. After a \<open>Get\<close> that returned a key and no shutdown signal, \<open>processNextItem\<close> ends,
  and what it adds to the history of the queue holds exactly one \<open>Done\<close>, for that key,
  as its last call, whether \<open>syncDeployment\<close> returned nil, returned an error or panicked;
  the key is then no longer in flight. A panic skips the error handler but not \<open>Done\<close>.
  After a \<open>Get\<close> that returned the shutdown signal nothing is called.
\<close>

theorem processNextItem_Done_once:
  "(Get (queue c) = Some ((key, False), q) \<longrightarrow>
      (\<exists>r c'. processNextItem c = Some (r, c') \<and>
         take (length (calls q)) (calls (queue c')) = calls q \<and>
         filter isDone (drop (length (calls q)) (calls (queue c'))) = [Call_Done key] \<and>
         last (calls (queue c')) = Call_Done key \<and>
         key \<notin> set (processing (queue c')) \<and>
         (case fst (syncDeployment key (c\<lparr>queue := q\<rparr>)) of
            Return err \<Rightarrow> r = Return True
          | Panic m \<Rightarrow> r = Panic m \<and> calls (queue c') = calls q @ [Call_Done key]))) \<and>
   (Get (queue c) = Some ((key, True), q) \<longrightarrow>
      processNextItem c = Some (Return False, c\<lparr>queue := q\<rparr>) \<and>
      calls q = calls (queue c) @ [Call_Get])"
proof -
  have a: "\<exists>r c'. processNextItem c = Some (r, c') \<and>
         take (length (calls q)) (calls (queue c')) = calls q \<and>
         filter isDone (drop (length (calls q)) (calls (queue c'))) = [Call_Done key] \<and>
         last (calls (queue c')) = Call_Done key \<and>
         key \<notin> set (processing (queue c')) \<and>
         (case fst (syncDeployment key (c\<lparr>queue := q\<rparr>)) of
            Return err \<Rightarrow> r = Return True
          | Panic m \<Rightarrow> r = Panic m \<and> calls (queue c') = calls q @ [Call_Done key])"
    if g: "Get (queue c) = Some ((key, False), q)"
  proof -
    obtain res c1 where s: "syncDeployment key (c\<lparr>queue := q\<rparr>) = (res, c1)"
      by (cases "syncDeployment key (c\<lparr>queue := q\<rparr>)") auto
    from syncDeployment_queue [OF s] have q1: "queue c1 = q" by simp
    show ?thesis
    proof (cases res)
      case (Panic m)
      with g s have "processNextItem c = Some (Panic m, c1\<lparr>queue := Done key (queue c1)\<rparr>)"
        by (simp add: processNextItem_def)
      with s Panic q1 show ?thesis
        by (simp add: Done_calls Done_processing)
    next
      case (Return err)
      let ?c2 = "handleErr err key c1"
      from g s Return
      have p: "processNextItem c = Some (Return True, ?c2\<lparr>queue := Done key (queue ?c2)\<rparr>)"
        by (simp add: processNextItem_def Let_def)
      from handleErr_calls [of err key c1] q1 obtain x where
        x: "calls (queue ?c2) = calls q @ [x]" "\<not> isDone x" by auto
      with p s Return show ?thesis
        by (simp add: Done_calls Done_processing)
    qed
  qed
  have b: "processNextItem c = Some (Return False, c\<lparr>queue := q\<rparr>) \<and>
      calls q = calls (queue c) @ [Call_Get]"
    if g: "Get (queue c) = Some ((key, True), q)"
    using g by (auto simp: processNextItem_def Get_def Let_def split: list.splits if_splits)
  from a b show ?thesis by blast
qed

text \<open>
  The faulting path: the store holds a nil \<open>*appsv1.Deployment\<close> under \<open>ns/a\<close>. The step
  panics, and the history of the queue is \<open>Add\<close>, \<open>Get\<close>, \<open>Done\<close>.
\<close>

theorem processNextItem_Done_once_witness:
  "Get (queue (enqueued ''ns/a'' (storeWith ''ns/a'' (DeploymentPtr None))))
     = Some ((''ns/a'', False),
             snd (the (Get (queue (enqueued ''ns/a'' (storeWith ''ns/a'' (DeploymentPtr None))))))) \<and>
   fst (syncDeployment ''ns/a''
          ((enqueued ''ns/a'' (storeWith ''ns/a'' (DeploymentPtr None)))
             \<lparr>queue := snd (the (Get (queue (enqueued ''ns/a''
                                               (storeWith ''ns/a'' (DeploymentPtr None))))))\<rparr>))
     = Panic nilDereference \<and>
   (\<exists>c'. processNextItem (enqueued ''ns/a'' (storeWith ''ns/a'' (DeploymentPtr None)))
            = Some (Panic nilDereference, c') \<and>
         calls (queue c') = [Call_Add ''ns/a'', Call_Get, Call_Done ''ns/a''] \<and>
         ''ns/a'' \<notin> set (processing (queue c')))"
proof -
  let ?c = "enqueued ''ns/a'' (storeWith ''ns/a'' (DeploymentPtr None))"
  let ?q = "snd (the (Get (queue ?c)))"
  have g: "Get (queue ?c) = Some ((''ns/a'', False), ?q)"
    by (simp add: example_defs queue_defs)
  have s: "fst (syncDeployment ''ns/a'' (?c\<lparr>queue := ?q\<rparr>)) = Panic nilDereference"
    by (simp add: syncDeployment_def castObjToDeployment_def example_defs)
  have cq: "calls ?q = [Call_Add ''ns/a'', Call_Get]"
    by (simp add: example_defs queue_defs)
  from processNextItem_Done_once [of ?c "''ns/a''" ?q] g s cq
  show ?thesis by auto
qed

lemma processNextItem_False:
  "processNextItem c = Some (Return False, c') \<Longrightarrow>
     Get (queue c) = Some (([], True), queue c') \<and> shuttingDown (queue c') \<and>
     pending (queue c') = [] \<and> last (calls (queue c')) = Call_Get"
  by (auto simp: processNextItem_def Get_def Let_def
           split: option.splits prod.splits if_splits list.splits outcome.splits)

lemma RunWorker_Stopped:
  "RunWorker c = (Stopped, c') \<Longrightarrow>
     shuttingDown (queue c') \<and> pending (queue c') = [] \<and> last (calls (queue c')) = Call_Get"
proof (induction c rule: RunWorker.induct)
  case (1 c)
  show ?case
  proof (cases "processNextItem c")
    case None
    with "1.prems" show ?thesis by (subst (asm) RunWorker.simps) simp
  next
    case (Some p)
    obtain r c1 where p: "p = (r, c1)" by (cases p) auto
    show ?thesis
    proof (cases r)
      case (Panic m)
      with Some p "1.prems" show ?thesis by (subst (asm) RunWorker.simps) simp
    next
      case (Return continue)
      show ?thesis
      proof (cases continue)
        case True
        with Some p Return "1.prems" have "RunWorker c1 = (Stopped, c')"
          by (subst (asm) RunWorker.simps) simp
        with "1.IH" [OF Some p [symmetric] Return True] show ?thesis by simp
      next
        case False
        with Some p Return "1.prems" have "c1 = c'"
          by (subst (asm) RunWorker.simps) simp
        with Some p Return False processNextItem_False [of c c'] show ?thesis by simp
      qed
    qed
  qed
qed

text \<open>
  C8. Whatever \<open>syncDeployment\<close> returns for the key it was given, nil or an error, the
  worker step returns true. The step returns false only when \<open>Get\<close> reported the shutdown
  signal, and so the loop of \<open>RunWorker\<close> stops only in a state whose last queue call is
  that \<open>Get\<close> on a queue that is shut down and has no pending key.
\<close>

theorem error_never_stops_worker:
  "(Get (queue c) = Some ((key, False), q) \<and>
    fst (syncDeployment key (c\<lparr>queue := q\<rparr>)) = Return err \<longrightarrow>
      (\<exists>c'. processNextItem c = Some (Return True, c'))) \<and>
   (processNextItem c = Some (Return False, c1) \<longrightarrow>
      Get (queue c) = Some (([], True), queue c1)) \<and>
   (RunWorker c = (Stopped, c2) \<longrightarrow>
      shuttingDown (queue c2) \<and> pending (queue c2) = [] \<and> last (calls (queue c2)) = Call_Get)"
proof -
  have a: "\<exists>c'. processNextItem c = Some (Return True, c')"
    if "Get (queue c) = Some ((key, False), q)"
       "fst (syncDeployment key (c\<lparr>queue := q\<rparr>)) = Return err"
    using that by (auto simp: processNextItem_def Let_def split: prod.splits)
  from a processNextItem_False [of c c1] RunWorker_Stopped [of c c2] show ?thesis
    by blast
qed

text \<open>
  A store whose lookups fail with \<open>boom\<close>: the step on \<open>ns/a\<close> returns true; on a queue
  that is shut down the loop handles the pending key, then stops at the shutdown signal.
\<close>

theorem error_never_stops_worker_witness:
  "Get (queue (enqueued ''ns/a'' (failingStore ''boom'')))
     = Some ((''ns/a'', False), snd (the (Get (queue (enqueued ''ns/a'' (failingStore ''boom'')))))) \<and>
   fst (syncDeployment ''ns/a''
          ((enqueued ''ns/a'' (failingStore ''boom''))
             \<lparr>queue := snd (the (Get (queue (enqueued ''ns/a'' (failingStore ''boom'')))))\<rparr>))
     = Return (Some ''boom'') \<and>
   (\<exists>c'. processNextItem (enqueued ''ns/a'' (failingStore ''boom'')) = Some (Return True, c')) \<and>
   fst (RunWorker ((enqueued ''ns/a'' (failingStore ''boom''))
                     \<lparr>queue := ShutDown (Add ''ns/a'' newQueue)\<rparr>)) = Stopped \<and>
   shuttingDown (queue (snd (RunWorker ((enqueued ''ns/a'' (failingStore ''boom''))
                                          \<lparr>queue := ShutDown (Add ''ns/a'' newQueue)\<rparr>)))) \<and>
   last (calls (queue (snd (RunWorker ((enqueued ''ns/a'' (failingStore ''boom''))
                                          \<lparr>queue := ShutDown (Add ''ns/a'' newQueue)\<rparr>)))))
     = Call_Get"
proof -
  let ?c = "enqueued ''ns/a'' (failingStore ''boom'')"
  let ?q = "snd (the (Get (queue ?c)))"
  let ?d = "?c\<lparr>queue := ShutDown (Add ''ns/a'' newQueue)\<rparr>"
  have g: "Get (queue ?c) = Some ((''ns/a'', False), ?q)"
    by (simp add: example_defs queue_defs)
  have s: "fst (syncDeployment ''ns/a'' (?c\<lparr>queue := ?q\<rparr>)) = Return (Some ''boom'')"
    by (simp add: syncDeployment_def example_defs)
  have r: "fst (RunWorker ?d) = Stopped"
    by (simp add: RunWorker.simps processNextItem_def syncDeployment_def handleErr_def
                  example_defs queue_defs)
  then have r': "RunWorker ?d = (Stopped, snd (RunWorker ?d))"
    by (metis prod.collapse)
  from error_never_stops_worker [of ?c "''ns/a''" ?q "Some ''boom''"] g s
  have a: "\<exists>c'. processNextItem ?c = Some (Return True, c')" by blast
  from error_never_stops_worker [of ?d _ _ _ _ "snd (RunWorker ?d)"] r'
  have b: "shuttingDown (queue (snd (RunWorker ?d))) \<and>
           last (calls (queue (snd (RunWorker ?d)))) = Call_Get" by blast
  from g s a r b show ?thesis by blast
qed

subsection \<open>Reconciliation and the map of current deployments\<close>

text \<open>
  C4. When the store has no entry for a key and reports no error, \<open>syncDeployment\<close> takes
  the deletion path: its result is that of \<open>deleteDeplotment\<close>, which is no error, and
  afterwards \<open>CurrentDeployments\<close> has no entry for the key while every other entry is as
  before. For a key the map never held, the map is unchanged.
\<close>

theorem syncDeployment_absent_key:
  "Indexer c key = (obj, False, None) \<Longrightarrow>
     syncDeployment key c = (Return (fst (deleteDeplotment key c)), snd (deleteDeplotment key c)) \<and>
     fst (syncDeployment key c) = Return None \<and>
     CurrentDeployments (snd (syncDeployment key c)) key = None \<and>
     (\<forall>k. k \<noteq> key \<longrightarrow>
        CurrentDeployments (snd (syncDeployment key c)) k = CurrentDeployments c k) \<and>
     (CurrentDeployments c key = None \<longrightarrow>
        CurrentDeployments (snd (syncDeployment key c)) = CurrentDeployments c)"
  by (auto simp: syncDeployment_def deleteDeplotment_def)

text \<open>A delete event for \<open>ns/a\<close> reaches a new controller, which never saw that key.\<close>

theorem syncDeployment_absent_key_witness:
  "Indexer (NewController emptyStore) ''ns/a'' = (NoObject, False, None) \<and>
   CurrentDeployments (NewController emptyStore) ''ns/a'' = None \<and>
   fst (syncDeployment ''ns/a'' (NewController emptyStore)) = Return None \<and>
   CurrentDeployments (snd (syncDeployment ''ns/a'' (NewController emptyStore)))
     = CurrentDeployments (NewController emptyStore) \<and>
   CurrentDeployments (snd (syncDeployment ''ns/a'' (NewController emptyStore))) ''ns/a'' = None"
proof -
  have i: "Indexer (NewController emptyStore) ''ns/a'' = (NoObject, False, None)"
    by (simp add: example_defs)
  have m: "CurrentDeployments (NewController emptyStore) ''ns/a'' = None"
    by (simp add: example_defs)
  from syncDeployment_absent_key [OF i] i m show ?thesis by blast
qed

text \<open>
  C9. For a Deployment with a non-empty namespace, the key the event handlers put on the
  queue is the key under which \<open>syncDeployment\<close> stores the snapshot. A successful sync of
  the queue key stores the Deployment under that key, and \<open>deleteDeplotment\<close> with the
  same key removes that entry and no other.
\<close>

theorem store_then_delete_roundtrip:
  "Namespace (Meta d) \<noteq> [] \<and>
   MetaNamespaceKeyFunc (DeploymentPtr (Some d)) = Return (key, None) \<and>
   Indexer c key = (DeploymentPtr (Some d), True, None) \<longrightarrow>
     key = Namespace (Meta d) @ ''/'' @ Name (Meta d) \<and>
     fst (syncDeployment key c) = Return None \<and>
     CurrentDeployments (snd (syncDeployment key c)) = (CurrentDeployments c)(key \<mapsto> d) \<and>
     fst (deleteDeplotment key (snd (syncDeployment key c))) = None \<and>
     CurrentDeployments (snd (deleteDeplotment key (snd (syncDeployment key c)))) key = None \<and>
     CurrentDeployments (snd (deleteDeplotment key (snd (syncDeployment key c))))
       = (CurrentDeployments c)(key := None)"
  by (auto simp: syncDeployment_def deleteDeplotment_def MetaNamespaceKeyFunc_def
                 castObjToDeployment_def)

text \<open>The Deployment \<open>a\<close> of namespace \<open>ns\<close>: stored under \<open>ns/a\<close>, then deleted.\<close>

theorem store_then_delete_roundtrip_witness:
  "Namespace (Meta exampleDeployment) \<noteq> [] \<and>
   MetaNamespaceKeyFunc (DeploymentPtr (Some exampleDeployment)) = Return (''ns/a'', None) \<and>
   Indexer (NewController (storeWith ''ns/a'' (DeploymentPtr (Some exampleDeployment)))) ''ns/a''
     = (DeploymentPtr (Some exampleDeployment), True, None) \<and>
   CurrentDeployments
     (snd (syncDeployment ''ns/a''
             (NewController (storeWith ''ns/a'' (DeploymentPtr (Some exampleDeployment))))))
     ''ns/a'' = Some exampleDeployment \<and>
   CurrentDeployments
     (snd (deleteDeplotment ''ns/a''
        (snd (syncDeployment ''ns/a''
                (NewController (storeWith ''ns/a'' (DeploymentPtr (Some exampleDeployment))))))))
     = Map.empty"
proof -
  let ?c = "NewController (storeWith ''ns/a'' (DeploymentPtr (Some exampleDeployment)))"
  have n: "Namespace (Meta exampleDeployment) \<noteq> []"
    by (simp add: example_defs)
  have k: "MetaNamespaceKeyFunc (DeploymentPtr (Some exampleDeployment)) = Return (''ns/a'', None)"
    by (simp add: MetaNamespaceKeyFunc_def example_defs)
  have i: "Indexer ?c ''ns/a'' = (DeploymentPtr (Some exampleDeployment), True, None)"
    by (simp add: example_defs)
  have e: "CurrentDeployments ?c = Map.empty"
    by (simp add: example_defs)
  from store_then_delete_roundtrip [of exampleDeployment "''ns/a''" ?c] n k i
  have r: "CurrentDeployments (snd (syncDeployment ''ns/a'' ?c))
             = (CurrentDeployments ?c)(''ns/a'' \<mapsto> exampleDeployment)"
          "CurrentDeployments (snd (deleteDeplotment ''ns/a'' (snd (syncDeployment ''ns/a'' ?c))))
             = (CurrentDeployments ?c)(''ns/a'' := None)"
    by blast+
  have "CurrentDeployments (snd (syncDeployment ''ns/a'' ?c)) ''ns/a'' = Some exampleDeployment"
    by (simp add: r(1))
  moreover
  have "CurrentDeployments (snd (deleteDeplotment ''ns/a'' (snd (syncDeployment ''ns/a'' ?c))))
          = Map.empty"
    by (simp add: r(2) e)
  ultimately show ?thesis using n k i by blast
qed

text \<open>
  C10. Whenever \<open>syncDeployment\<close> returns a non-nil error, be it the error of the store
  lookup or of the failed cast, it leaves the controller, and so the map
  \<open>CurrentDeployments\<close>, exactly as it found it.
\<close>

theorem syncDeployment_error_unchanged:
  "syncDeployment key c = (Return (Some e), c') \<Longrightarrow>
     c' = c \<and> CurrentDeployments c' = CurrentDeployments c"
  by (auto simp: syncDeployment_def deleteDeplotment_def
           split: prod.splits option.splits if_splits outcome.splits)

text \<open>A failing lookup on a controller that already shows one Deployment.\<close>

theorem syncDeployment_error_unchanged_witness:
  "syncDeployment ''ns/a''
     ((NewController (failingStore ''boom''))
        \<lparr>CurrentDeployments := [''ns/a'' \<mapsto> exampleDeployment]\<rparr>)
     = (Return (Some ''boom''),
        (NewController (failingStore ''boom''))
          \<lparr>CurrentDeployments := [''ns/a'' \<mapsto> exampleDeployment]\<rparr>) \<and>
   CurrentDeployments
     (snd (syncDeployment ''ns/a''
             ((NewController (failingStore ''boom''))
                \<lparr>CurrentDeployments := [''ns/a'' \<mapsto> exampleDeployment]\<rparr>))) ''ns/a''
     = Some exampleDeployment"
proof -
  let ?c = "(NewController (failingStore ''boom''))
              \<lparr>CurrentDeployments := [''ns/a'' \<mapsto> exampleDeployment]\<rparr>"
  have h: "syncDeployment ''ns/a'' ?c = (Return (Some ''boom''), ?c)"
    by (simp add: syncDeployment_def example_defs)
  from syncDeployment_error_unchanged [OF h] h show ?thesis by simp
qed

subsection \<open>Events, keys and the store\<close>

text \<open>
  C7. The event handlers hand the queue nothing but the key: two events whose objects have
  the same key leave the queue in the same state, and the old object of an update is not
  read at all. The worker step on a delivered key reads the store at that moment: when the
  store holds a Deployment under the key, that Deployment is what the step records.
\<close>

theorem reconcile_reads_store_not_payload:
  "(MetaNamespaceKeyFunc ev1 = MetaNamespaceKeyFunc ev2 \<longrightarrow>
      AddFunc ev1 q = AddFunc ev2 q \<and> UpdateFunc old1 ev1 q = UpdateFunc old2 ev2 q) \<and>
   (DeletionHandlingMetaNamespaceKeyFunc ev1 = DeletionHandlingMetaNamespaceKeyFunc ev2 \<longrightarrow>
      DeleteFunc ev1 q = DeleteFunc ev2 q) \<and>
   (MetaNamespaceKeyFunc ev1 = Return (key, None) \<longrightarrow>
      AddFunc ev1 q = Return (Add key q) \<and> UpdateFunc old1 ev1 q = Return (Add key q)) \<and>
   (DeletionHandlingMetaNamespaceKeyFunc ev1 = Return (key, None) \<longrightarrow>
      DeleteFunc ev1 q = Return (Add key q)) \<and>
   (Get (queue c) = Some ((key, False), q') \<and>
    Indexer c key = (DeploymentPtr (Some d), True, None) \<longrightarrow>
      (\<exists>c'. processNextItem c = Some (Return True, c') \<and>
         CurrentDeployments c' = (CurrentDeployments c)(Namespace (Meta d) @ ''/'' @ Name (Meta d) \<mapsto> d)))"
proof -
  have a: "AddFunc ev1 q = AddFunc ev2 q \<and> UpdateFunc old1 ev1 q = UpdateFunc old2 ev2 q"
    if "MetaNamespaceKeyFunc ev1 = MetaNamespaceKeyFunc ev2"
    using that by (simp add: AddFunc_def UpdateFunc_def)
  have b: "DeleteFunc ev1 q = DeleteFunc ev2 q"
    if "DeletionHandlingMetaNamespaceKeyFunc ev1 = DeletionHandlingMetaNamespaceKeyFunc ev2"
    using that by (simp add: DeleteFunc_def)
  have a': "AddFunc ev1 q = Return (Add key q) \<and> UpdateFunc old1 ev1 q = Return (Add key q)"
    if "MetaNamespaceKeyFunc ev1 = Return (key, None)"
    using that by (simp add: AddFunc_def UpdateFunc_def)
  have b': "DeleteFunc ev1 q = Return (Add key q)"
    if "DeletionHandlingMetaNamespaceKeyFunc ev1 = Return (key, None)"
    using that by (simp add: DeleteFunc_def)
  have d: "\<exists>c'. processNextItem c = Some (Return True, c') \<and>
         CurrentDeployments c' = (CurrentDeployments c)(Namespace (Meta d) @ ''/'' @ Name (Meta d) \<mapsto> d)"
    if "Get (queue c) = Some ((key, False), q')"
       "Indexer c key = (DeploymentPtr (Some d), True, None)"
    using that
    by (simp add: processNextItem_def Let_def syncDeployment_def castObjToDeployment_def
                  handleErr_def)
  from a b a' b' d show ?thesis by blast
qed

text \<open>
  The event carries the snapshot \<open>v1\<close> of \<open>ns/a\<close>; by the time the key is delivered the
  store holds \<open>v2\<close>. The queue state is the one an event with \<open>v2\<close> gives, and the step
  records \<open>v2\<close>.
\<close>

theorem reconcile_reads_store_not_payload_witness:
  "MetaNamespaceKeyFunc (DeploymentPtr (Some staleDeployment))
     = MetaNamespaceKeyFunc (DeploymentPtr (Some exampleDeployment)) \<and>
   staleDeployment \<noteq> exampleDeployment \<and>
   AddFunc (DeploymentPtr (Some staleDeployment)) newQueue = Return (Add ''ns/a'' newQueue) \<and>
   AddFunc (DeploymentPtr (Some staleDeployment)) newQueue
     = AddFunc (DeploymentPtr (Some exampleDeployment)) newQueue \<and>
   DeleteFunc (DeletedFinalStateUnknown ''ns/a'') newQueue = Return (Add ''ns/a'' newQueue) \<and>
   (\<exists>c'. processNextItem (enqueued ''ns/a'' (storeWith ''ns/a'' (DeploymentPtr (Some exampleDeployment))))
            = Some (Return True, c') \<and>
          CurrentDeployments c' = [''ns/a'' \<mapsto> exampleDeployment])"
proof -
  let ?c = "enqueued ''ns/a'' (storeWith ''ns/a'' (DeploymentPtr (Some exampleDeployment)))"
  let ?q = "snd (the (Get (queue ?c)))"
  have k1: "MetaNamespaceKeyFunc (DeploymentPtr (Some staleDeployment)) = Return (''ns/a'', None)"
    by (simp add: MetaNamespaceKeyFunc_def example_defs)
  have k2: "MetaNamespaceKeyFunc (DeploymentPtr (Some exampleDeployment)) = Return (''ns/a'', None)"
    by (simp add: MetaNamespaceKeyFunc_def example_defs)
  have k3: "DeletionHandlingMetaNamespaceKeyFunc (DeletedFinalStateUnknown ''ns/a'')
              = Return (''ns/a'', None)"
    by (simp add: DeletionHandlingMetaNamespaceKeyFunc_def)
  have ne: "staleDeployment \<noteq> exampleDeployment"
    by (simp add: example_defs)
  have g: "Get (queue ?c) = Some ((''ns/a'', False), ?q)"
    by (simp add: example_defs queue_defs)
  have i: "Indexer ?c ''ns/a'' = (DeploymentPtr (Some exampleDeployment), True, None)"
    by (simp add: example_defs)
  have m: "CurrentDeployments ?c = Map.empty" "Namespace (Meta exampleDeployment) = ''ns''"
      "Name (Meta exampleDeployment) = ''a''"
    by (simp_all add: example_defs)
  note inst1 = reconcile_reads_store_not_payload
         [of "DeploymentPtr (Some staleDeployment)" "DeploymentPtr (Some exampleDeployment)"
             newQueue NoObject NoObject "''ns/a''" ?c ?q exampleDeployment]
  note inst2 = reconcile_reads_store_not_payload
         [of "DeletedFinalStateUnknown ''ns/a''" "DeletedFinalStateUnknown ''ns/a''"
             newQueue NoObject NoObject "''ns/a''" ?c ?q exampleDeployment]
  from inst1 k1 k2
  have a: "AddFunc (DeploymentPtr (Some staleDeployment)) newQueue
             = AddFunc (DeploymentPtr (Some exampleDeployment)) newQueue"
          "AddFunc (DeploymentPtr (Some staleDeployment)) newQueue = Return (Add ''ns/a'' newQueue)"
    by metis+
  from inst2 k3
  have b: "DeleteFunc (DeletedFinalStateUnknown ''ns/a'') newQueue = Return (Add ''ns/a'' newQueue)"
    by blast
  from inst1 g i
  have "\<exists>c'. processNextItem ?c = Some (Return True, c') \<and>
          CurrentDeployments c'
            = (CurrentDeployments ?c)(Namespace (Meta exampleDeployment) @ ''/''
                                       @ Name (Meta exampleDeployment) \<mapsto> exampleDeployment)"
    by blast
  with m have d: "\<exists>c'. processNextItem ?c = Some (Return True, c') \<and>
          CurrentDeployments c' = [''ns/a'' \<mapsto> exampleDeployment]"
    by simp
  from k1 k2 ne a b d show ?thesis by (simp only: simp_thms)
qed




subsection \<open>The synchronisation barrier\<close>

text \<open>
  C5, as the code has it. \<open>Run\<close> starts the worker loop only after
  \<open>cache.WaitForCacheSync\<close> has returned true: a \<open>Get\<close> among the queue calls that
  \<open>Run\<close> brings about means that the wait succeeded. When the wait returns false, \<open>Run\<close>
  hands the error \<open>timed out waiting for caches to sync\<close> to \<open>runtime.HandleError\<close>,
  shuts the queue down and returns: no worker is started, the only queue call is
  \<open>ShutDown\<close>, and the pending keys, the keys in flight and the map of current
  deployments are as before. The error is reported, and \<open>Run\<close> returns as usual. No
  deadline is set by \<open>Run\<close>; when the wait gives up is decided inside
  \<open>cache.WaitForCacheSync\<close>.
\<close>

theorem Run_worker_only_after_sync:
  "(\<not> synced \<longrightarrow>
      Run synced c
        = (Return SyncFailed,
           c\<lparr>reported := reported c @ [''timed out waiting for caches to sync''],
             queue := ShutDown (queue c)\<rparr>) \<and>
      calls (queue (snd (Run synced c))) = calls (queue c) @ [Call_ShutDown] \<and>
      shuttingDown (queue (snd (Run synced c))) \<and>
      pending (queue (snd (Run synced c))) = pending (queue c) \<and>
      processing (queue (snd (Run synced c))) = processing (queue c) \<and>
      CurrentDeployments (snd (Run synced c)) = CurrentDeployments c) \<and>
   (synced \<longrightarrow>
      Run synced c
        = (case RunWorker c of
             (Crashed m, c') \<Rightarrow> (Panic m, c')
           | (r, c') \<Rightarrow> (Return (Started r), c'\<lparr>queue := ShutDown (queue c')\<rparr>))) \<and>
   (fst (Run synced c) \<noteq> Return SyncFailed \<longrightarrow> synced) \<and>
   (Call_Get \<in> set (drop (length (calls (queue c))) (calls (queue (snd (Run synced c)))))
      \<longrightarrow> synced)"
  by (simp add: Run_def ShutDown_def)

text \<open>
  The key \<open>ns/a\<close> is pending when the wait ends. After a failed wait it is still pending
  and the queue has seen \<open>Add\<close> and \<open>ShutDown\<close> only; after a successful wait the worker
  handles it before the queue is shut down.
\<close>

theorem Run_worker_only_after_sync_witness:
  "\<not> False \<and>
   Run False (enqueued ''ns/a'' emptyStore)
     = (Return SyncFailed,
        (enqueued ''ns/a'' emptyStore)
          \<lparr>reported := [''timed out waiting for caches to sync''],
            queue := ShutDown (Add ''ns/a'' newQueue)\<rparr>) \<and>
   calls (queue (snd (Run False (enqueued ''ns/a'' emptyStore))))
     = [Call_Add ''ns/a'', Call_ShutDown] \<and>
   pending (queue (snd (Run False (enqueued ''ns/a'' emptyStore)))) = [''ns/a''] \<and>
   fst (Run True (enqueued ''ns/a'' emptyStore)) = Return (Started Blocked) \<and>
   calls (queue (snd (Run True (enqueued ''ns/a'' emptyStore))))
     = [Call_Add ''ns/a'', Call_Get, Call_Forget ''ns/a'', Call_Done ''ns/a'', Call_ShutDown]"
proof -
  let ?c = "enqueued ''ns/a'' emptyStore"
  have q: "queue ?c = Add ''ns/a'' newQueue" "reported ?c = []"
          "calls (queue ?c) = [Call_Add ''ns/a'']" "pending (queue ?c) = [''ns/a'']"
    by (simp_all add: example_defs queue_defs)
  from Run_worker_only_after_sync [of False ?c]
  have f: "Run False ?c
        = (Return SyncFailed,
           ?c\<lparr>reported := reported ?c @ [''timed out waiting for caches to sync''],
              queue := ShutDown (queue ?c)\<rparr>)"
       "calls (queue (snd (Run False ?c))) = calls (queue ?c) @ [Call_ShutDown]"
       "pending (queue (snd (Run False ?c))) = pending (queue ?c)"
    by blast+
  have w: "RunWorker ?c
             = (Blocked, snd (RunWorker ?c))"
          "calls (queue (snd (RunWorker ?c)))
             = [Call_Add ''ns/a'', Call_Get, Call_Forget ''ns/a'', Call_Done ''ns/a'']"
    by (simp_all add: RunWorker.simps processNextItem_def syncDeployment_def deleteDeplotment_def
                      handleErr_def example_defs queue_defs)
  from Run_worker_only_after_sync [of True ?c]
  have "Run True ?c
        = (case RunWorker ?c of
             (Crashed m, c') \<Rightarrow> (Panic m, c')
           | (r, c') \<Rightarrow> (Return (Started r), c'\<lparr>queue := ShutDown (queue c')\<rparr>))"
    by blast
  then have t: "Run True ?c
        = (Return (Started Blocked),
           (snd (RunWorker ?c))\<lparr>queue := ShutDown (queue (snd (RunWorker ?c)))\<rparr>)"
    by (subst (asm) w(1)) simp
  have t1: "fst (Run True ?c) = Return (Started Blocked)"
    by (simp add: t)
  have t2: "calls (queue (snd (Run True ?c)))
     = [Call_Add ''ns/a'', Call_Get, Call_Forget ''ns/a'', Call_Done ''ns/a'', Call_ShutDown]"
    by (simp add: t w(2) ShutDown_def)
  from f q t1 t2 show ?thesis by simp
qed

text \<open>
  C5, as the claim states it, fails: the failed wait does not end in a fatal error. The
  error goes to the list of errors reported through \<open>runtime.HandleError\<close>, where the
  errors of exhausted retries go as well, and \<open>Run\<close> returns.
\<close>

theorem Run_sync_failure_counterexample:
  "Run False (enqueued ''ns/a'' emptyStore)
     = (Return SyncFailed,
        (enqueued ''ns/a'' emptyStore)
          \<lparr>reported := [''timed out waiting for caches to sync''],
            queue := ShutDown (Add ''ns/a'' newQueue)\<rparr>) \<and>
   fst (Run False (enqueued ''ns/a'' emptyStore))
     \<noteq> Panic ''timed out waiting for caches to sync''"
  by (simp add: Run_def example_defs)

end
